theory Spec2Isabelle
  imports Main
begin

text \<open>
  The chat pipeline of the repository: the loader of a character's knowledge
  (\<open>ai/pipelines/retrieve_primary.ts\<close>), the Gemini client, the pipeline runner and the
  answer controller with its prompts and its safety filter (the three parts of
  \<open>backend/services/gemini_client.ts\<close>), and the chat handler with the logger and the
  OpenAI client it calls. Files and the network are arguments of the functions that
  read them.
\<close>

section \<open>JavaScript strings\<close>

text \<open>
  A JavaScript string is a sequence of UTF-16 code units. The model keeps the code units
  below 256 (Basic Latin and Latin-1 Supplement), one \<^typ>\<open>char\<close> each; on this range
  the functions below are what the platform computes.
\<close>

definition toLowerChar :: "char \<Rightarrow> char" where
  \<comment> \<open>\<open>A\<close>..\<open>Z\<close> and the Latin-1 capitals (all of 192..222 but the multiplication sign).\<close>
  "toLowerChar c =
     (let n = (of_char c :: nat)
      in if (65 \<le> n \<and> n \<le> 90) \<or> (192 \<le> n \<and> n \<le> 222 \<and> n \<noteq> 215)
         then char_of (n + 32) else c)"

definition toLowerCase :: "string \<Rightarrow> string" where
  "toLowerCase s = map toLowerChar s"

fun startsWith :: "string \<Rightarrow> string \<Rightarrow> bool" where
  "startsWith s [] = True"
| "startsWith [] (p # ps) = False"
| "startsWith (c # cs) (p # ps) = (c = p \<and> startsWith cs ps)"

fun str_includes :: "string \<Rightarrow> string \<Rightarrow> bool" where
  \<comment> \<open>\<open>s.includes(p)\<close>: try every start position from the left.\<close>
  "str_includes [] p = (p = [])"
| "str_includes (c # cs) p = (startsWith (c # cs) p \<or> str_includes cs p)"

definition isSpace :: "char \<Rightarrow> bool" where
  \<comment> \<open>White space and line terminators below 256: TAB, LF, VT, FF, CR, SP, NBSP.
      Both \<open>trim\<close> and the regular expression class \<open>\s\<close> use this set.\<close>
  "isSpace c = ((of_char c :: nat) \<in> {9, 10, 11, 12, 13, 32, 160})"

definition isWord :: "char \<Rightarrow> bool" where
  \<comment> \<open>The regular expression class \<open>\w\<close>: letters, digits and the underscore.\<close>
  "isWord c =
     (let n = (of_char c :: nat)
      in (48 \<le> n \<and> n \<le> 57) \<or> (65 \<le> n \<and> n \<le> 90) \<or> n = 95 \<or> (97 \<le> n \<and> n \<le> 122))"

definition trim :: "string \<Rightarrow> string" where
  "trim s = rev (dropWhile isSpace (rev (dropWhile isSpace s)))"

definition nl :: string where
  \<comment> \<open>The line feed, \<open>\n\<close>.\<close>
  "nl = [CHR 0x0A]"

fun join :: "string \<Rightarrow> string list \<Rightarrow> string" where
  \<comment> \<open>\<open>parts.join(sep)\<close> on an array of strings.\<close>
  "join sep [] = []"
| "join sep [x] = x"
| "join sep (x # y # ys) = x @ sep @ join sep (y # ys)"

fun splitOn :: "char \<Rightarrow> string \<Rightarrow> string list" where
  \<comment> \<open>\<open>s.split(d)\<close> for a one-character separator; the empty string gives one empty piece.\<close>
  "splitOn d [] = [[]]"
| "splitOn d (c # cs) =
     (if c = d then [] # splitOn d cs
      else (case splitOn d cs of [] \<Rightarrow> [[c]] | p # ps \<Rightarrow> (c # p) # ps))"

function collapseSpace :: "string \<Rightarrow> string" where
  \<comment> \<open>\<open>s.replace(/\s+/g, " ")\<close>: every maximal run of white space becomes one space.\<close>
  "collapseSpace [] = []"
| "collapseSpace (c # cs) =
     (if isSpace c then CHR '' '' # collapseSpace (dropWhile isSpace cs)
      else c # collapseSpace cs)"
  by pat_completeness auto
termination
  by (relation "measure length") (auto simp: length_dropWhile_le less_Suc_eq_le)

fun digitsOf :: "nat \<Rightarrow> string" where
  "digitsOf n =
     (if n < 10 then [char_of (48 + n)]
      else digitsOf (n div 10) @ [char_of (48 + n mod 10)])"

definition showInt :: "int \<Rightarrow> string" where
  "showInt i = (if i < 0 then CHR ''-'' # digitsOf (nat (- i)) else digitsOf (nat i))"

definition isDigit :: "char \<Rightarrow> bool" where
  "isDigit c = (let n = (of_char c :: nat) in 48 \<le> n \<and> n \<le> 57)"

definition parseIndex :: "string \<Rightarrow> nat option" where
  \<comment> \<open>The array index a property key denotes: a decimal numeral without a leading zero.\<close>
  "parseIndex k =
     (if k = [] then None
      else if list_all isDigit k \<and> (length k = 1 \<or> hd k \<noteq> CHR ''0'')
      then Some (foldl (\<lambda>n c. 10 * n + ((of_char c :: nat) - 48)) 0 k)
      else None)"

section \<open>JSON values\<close>

text \<open>
  What \<open>JSON.parse\<close> returns. Numbers are kept to the integers that print in plain
  decimal; an object is the list of its own properties in the order the platform
  enumerates them, each key once. \<open>undefined\<close> is \<open>None\<close> of an option.
  The loader, the handler and the clients read properties by fixed names that no
  built-in prototype defines, so for them a lookup among the own properties
  (\<open>ownProperty\<close>: the keys of an object, the indices and \<open>length\<close> of an array) is the
  lookup of the code. The template renderer reads properties by whatever key a template
  names; its lookups see the inherited members as well and are modelled apart.
\<close>

datatype json =
    JNull
  | JBool bool
  | JNum int
  | JStr string
  | JArr "json list"
  | JObj "(string \<times> json) list"

fun truthy :: "json \<Rightarrow> bool" where
  "truthy JNull = False"
| "truthy (JBool b) = b"
| "truthy (JNum n) = (n \<noteq> 0)"
| "truthy (JStr s) = (s \<noteq> [])"
| "truthy (JArr xs) = True"
| "truthy (JObj kvs) = True"

fun isObject :: "json \<Rightarrow> bool" where
  \<comment> \<open>\<open>v && typeof v === "object"\<close>: an object or an array, not \<open>null\<close>.\<close>
  "isObject (JArr xs) = True"
| "isObject (JObj kvs) = True"
| "isObject v = False"

fun ownProperty :: "json \<Rightarrow> string \<Rightarrow> json option" where
  \<comment> \<open>\<open>v[k]\<close> on a value that is not \<open>null\<close>; \<open>None\<close> is \<open>undefined\<close>. Where the code
      reads a property of a value that may be a string, the key is a fixed name, never
      \<open>length\<close> or an index.\<close>
  "ownProperty (JObj kvs) k = map_of kvs k"
| "ownProperty (JArr xs) k =
     (if k = ''length'' then Some (JNum (int (length xs)))
      else (case parseIndex k of
              None \<Rightarrow> None
            | Some i \<Rightarrow> if i < length xs then Some (xs ! i) else None))"
| "ownProperty v k = None"

fun js_String :: "json \<Rightarrow> string" where
  \<comment> \<open>\<open>String(v)\<close>, which a template literal applies as well. An array prints its
      elements separated by commas, \<open>null\<close> elements as nothing.\<close>
  "js_String JNull = ''null''"
| "js_String (JBool b) = (if b then ''true'' else ''false'')"
| "js_String (JNum n) = showInt n"
| "js_String (JStr s) = s"
| "js_String (JArr xs) = join '','' (map (\<lambda>x. if x = JNull then [] else js_String x) xs)"
| "js_String (JObj kvs) = ''[object Object]''"

definition arrayJoin :: "string \<Rightarrow> json list \<Rightarrow> string" where
  \<comment> \<open>\<open>xs.join(sep)\<close> on an array of values.\<close>
  "arrayJoin sep xs = join sep (map (\<lambda>x. if x = JNull then [] else js_String x) xs)"

definition hexDigit :: "nat \<Rightarrow> char" where
  "hexDigit n = (if n < 10 then char_of (48 + n) else char_of (87 + n))"

definition escapeChar :: "char \<Rightarrow> string" where
  \<comment> \<open>How \<open>JSON.stringify\<close> writes one code unit inside a string.\<close>
  "escapeChar c =
     (let n = (of_char c :: nat)
      in if n = 34 then [CHR 0x5C, CHR 0x22]
         else if n = 92 then [CHR 0x5C, CHR 0x5C]
         else if n = 8 then [CHR 0x5C, CHR ''b'']
         else if n = 12 then [CHR 0x5C, CHR ''f'']
         else if n = 10 then [CHR 0x5C, CHR ''n'']
         else if n = 13 then [CHR 0x5C, CHR ''r'']
         else if n = 9 then [CHR 0x5C, CHR ''t'']
         else if n < 32
           then [CHR 0x5C, CHR ''u'', CHR ''0'', CHR ''0'', hexDigit (n div 16), hexDigit (n mod 16)]
         else [c])"

definition quote :: "string \<Rightarrow> string" where
  "quote s = [CHR 0x22] @ concat (map escapeChar s) @ [CHR 0x22]"

fun stringify :: "string \<Rightarrow> json \<Rightarrow> string" where
  \<comment> \<open>\<open>JSON.stringify(v, null, 2)\<close>, with the indentation of the enclosing line.\<close>
  "stringify ind JNull = ''null''"
| "stringify ind (JBool b) = (if b then ''true'' else ''false'')"
| "stringify ind (JNum n) = showInt n"
| "stringify ind (JStr s) = quote s"
| "stringify ind (JArr xs) =
     (if xs = [] then ''[]''
      else ''['' @ nl @
           join ('','' @ nl) (map (\<lambda>x. ind @ ''  '' @ stringify (ind @ ''  '') x) xs) @
           nl @ ind @ '']'')"
| "stringify ind (JObj kvs) =
     (if kvs = [] then ''{}''
      else ''{'' @ nl @
           join ('','' @ nl)
             (map (\<lambda>(k, v). ind @ ''  '' @ quote k @ '': '' @ stringify (ind @ ''  '') v) kvs) @
           nl @ ind @ ''}'')"

datatype js_exception = TypeError

datatype json_file = Missing | Malformed | Parsed json

definition readJsonSafe :: "json_file \<Rightarrow> json" where
  \<comment> \<open>A file that is not there, cannot be read or is not JSON gives the empty object.\<close>
  "readJsonSafe f = (case f of Missing \<Rightarrow> JObj [] | Malformed \<Rightarrow> JObj [] | Parsed v \<Rightarrow> v)"

section \<open>The context loader\<close>

record KnowledgeDir =
  identity_json :: json_file
  style_json :: json_file
  guardrails_json :: json_file

record PrimaryRagResult =
  ragContext :: string
  ragGuardrails :: json
  characterId :: json
  characterName :: json

definition formatSection :: "string \<Rightarrow> json \<Rightarrow> string" where
  "formatSection title data = ''## '' @ title @ nl @ stringify [] data @ nl"

fun entries :: "json \<Rightarrow> (string \<times> json) list" where
  \<comment> \<open>\<open>Object.entries\<close> of an object or an array.\<close>
  "entries (JObj kvs) = kvs"
| "entries (JArr xs) = zip (map digitsOf [0..<length xs]) xs"
| "entries v = []"

definition formatVirtues :: "json option \<Rightarrow> string" where
  "formatVirtues virtues =
     (case virtues of
        None \<Rightarrow> []
      | Some v \<Rightarrow>
          if \<not> isObject v then []
          else let virtueEntries = entries v
               in if virtueEntries = [] then []
                  else let formatted =
                             join nl (map (\<lambda>(name, description).
                               ''- **'' @ name @ ''**: '' @ js_String description) virtueEntries)
                       in ''## Character Virtues'' @ nl @ formatted @ nl)"

definition formatArraySection :: "string \<Rightarrow> json \<Rightarrow> string" where
  "formatArraySection title items =
     (case items of
        JArr xs \<Rightarrow>
          if xs = [] then []
          else let formatted = join nl (map (\<lambda>item. ''- '' @ js_String item) xs)
               in ''## '' @ title @ nl @ formatted @ nl
      | _ \<Rightarrow> [])"

definition orEmptyArray :: "json option \<Rightarrow> json" where
  \<comment> \<open>\<open>v || []\<close>.\<close>
  "orEmptyArray v = (case v of None \<Rightarrow> JArr [] | Some x \<Rightarrow> if truthy x then x else JArr [])"

definition factOf :: "json \<Rightarrow> json" where
  \<comment> \<open>\<open>typeof item === "string" ? item : item.fact || ""\<close>, for an item that is not \<open>null\<close>.\<close>
  "factOf item =
     (case item of
        JStr s \<Rightarrow> item
      | _ \<Rightarrow> (case ownProperty item ''fact'' of
                None \<Rightarrow> JStr []
              | Some f \<Rightarrow> if truthy f then f else JStr []))"

definition backgroundFactsOf :: "json \<Rightarrow> js_exception + string" where
  \<comment> \<open>Reading \<open>.fact\<close> of a \<open>null\<close> item throws.\<close>
  "backgroundFactsOf identity =
     (case ownProperty identity ''background'' of
        Some (JArr items) \<Rightarrow>
          if List.member items JNull then Inl TypeError
          else Inr (arrayJoin nl (filter truthy (map factOf items)))
      | _ \<Rightarrow> Inr [])"

definition loadPrimaryRag ::
  "(string \<Rightarrow> KnowledgeDir) \<Rightarrow> string \<Rightarrow> js_exception + PrimaryRagResult" where
  \<comment> \<open>The first argument is the directory \<open>ai/primary-rag\<close>, by character slug. Reading a
      property of an identity document that is \<open>null\<close> throws.\<close>
  "loadPrimaryRag primaryRagDir characterSlug =
     (let identity = readJsonSafe (identity_json (primaryRagDir characterSlug));
          style = readJsonSafe (style_json (primaryRagDir characterSlug));
          guardrails = readJsonSafe (guardrails_json (primaryRagDir characterSlug))
      in if identity = JNull then Inl TypeError
         else
           let cid = (case ownProperty identity ''character_id'' of
                        None \<Rightarrow> JStr characterSlug
                      | Some v \<Rightarrow> if truthy v then v else JStr characterSlug);
               cname = (case ownProperty identity ''character'' of
                          None \<Rightarrow> JStr characterSlug
                        | Some JNull \<Rightarrow> JStr characterSlug
                        | Some c \<Rightarrow>
                            (case ownProperty c ''name'' of
                               None \<Rightarrow> JStr characterSlug
                             | Some v \<Rightarrow> if truthy v then v else JStr characterSlug))
           in case backgroundFactsOf identity of
                Inl e \<Rightarrow> Inl e
              | Inr backgroundFacts \<Rightarrow>
                  let virtuesSection = formatVirtues (ownProperty identity ''virtues'');
                      teachingGuidanceSection = formatArraySection ''Teaching Guidance''
                        (orEmptyArray (ownProperty identity ''teaching_guidance''));
                      coachLinesSection = formatArraySection ''Coach Lines''
                        (orEmptyArray (ownProperty identity ''coach_lines''));
                      quotesSection = formatArraySection ''Quotes''
                        (orEmptyArray (ownProperty identity ''quotes''));
                      dailyMissionsSection = formatArraySection ''Daily Missions''
                        (orEmptyArray (ownProperty identity ''daily_missions''));
                      sections =
                        [formatSection ''Identity'' identity,
                         formatSection ''Style'' style,
                         if backgroundFacts \<noteq> []
                         then ''## Background Facts'' @ nl @ backgroundFacts @ nl else [],
                         virtuesSection,
                         teachingGuidanceSection,
                         coachLinesSection,
                         quotesSection,
                         dailyMissionsSection]
                  in Inr \<lparr>ragContext = join nl (filter (\<lambda>s. s \<noteq> []) sections),
                          ragGuardrails = guardrails,
                          characterId = cid,
                          characterName = cname\<rparr>)"

section \<open>The safety filter (the answer controller)\<close>

record SafetyConfig =
  forbiddenTopics :: "string list"
  childSafeRules :: string
  escalationPolicy :: string

definition containsForbiddenTopic :: "string \<Rightarrow> string list \<Rightarrow> bool" where
  "containsForbiddenTopic text topics =
     (let lower = toLowerCase text
      in list_ex (\<lambda>topic. str_includes lower (toLowerCase topic)) topics)"

definition asksForPersonalInfo :: "string \<Rightarrow> bool" where
  "asksForPersonalInfo text =
     (let lower = toLowerCase text
      in str_includes lower ''address'' \<or>
         str_includes lower ''phone'' \<or>
         str_includes lower ''email'' \<or>
         str_includes lower ''last name'' \<or>
         str_includes lower ''full name'')"

definition enforceSafety :: "string \<Rightarrow> SafetyConfig \<Rightarrow> json \<Rightarrow> string \<Rightarrow> string" where
  "enforceSafety answer safety guardrails refusalText =
     (if containsForbiddenTopic answer (forbiddenTopics safety) then refusalText
      else if asksForPersonalInfo answer then refusalText
      else answer)"

section \<open>Prompt building (the answer controller)\<close>

definition readPrompt :: "(string \<Rightarrow> string option) \<Rightarrow> string \<Rightarrow> string" where
  \<comment> \<open>The first argument is the directory \<open>ai/prompts\<close>: the text of each file that exists.\<close>
  "readPrompt promptDir fileName = (case promptDir fileName of None \<Rightarrow> [] | Some t \<Rightarrow> t)"

definition readSafetyFile :: "(string \<Rightarrow> string option) \<Rightarrow> string \<Rightarrow> string" where
  "readSafetyFile safetyDir fileName = (case safetyDir fileName of None \<Rightarrow> [] | Some t \<Rightarrow> t)"

subsection \<open>Template rendering\<close>

text \<open>
  A token is \<open>{{\<close>, white space, a key, white space, \<open>}}\<close>. The three character classes
  of the regular expression (white space, key characters, the closing brace) are
  disjoint, so the greedy match never backtracks: it takes all the white space, then all
  the key characters, then all the white space, and needs \<open>}}\<close> next.
\<close>

definition matchToken :: "(char \<Rightarrow> bool) \<Rightarrow> string \<Rightarrow> (string \<times> string) option" where
  \<comment> \<open>A match at the start of the string: the key and the text after the token.\<close>
  "matchToken keyChar s =
     (case s of
        c1 # c2 # s1 \<Rightarrow>
          if c1 = CHR ''{'' \<and> c2 = CHR ''{''
          then let s2 = dropWhile isSpace s1;
                   key = takeWhile keyChar s2;
                   s4 = dropWhile isSpace (dropWhile keyChar s2)
               in (case s4 of
                     d1 # d2 # rest \<Rightarrow>
                       if key \<noteq> [] \<and> d1 = CHR ''}'' \<and> d2 = CHR ''}''
                       then Some (key, rest) else None
                   | _ \<Rightarrow> None)
          else None
      | _ \<Rightarrow> None)"

lemma matchToken_shorter:
  assumes "matchToken keyChar s = Some (key, rest)"
  shows "length rest < length s"
proof -
  from assms obtain s1 where s: "s = CHR ''{'' # CHR ''{'' # s1"
    by (auto simp: matchToken_def split: list.splits if_splits)
  let ?s4 = "dropWhile isSpace (dropWhile keyChar (dropWhile isSpace s1))"
  from assms s have "?s4 = CHR ''}'' # CHR ''}'' # rest"
    by (auto simp: matchToken_def Let_def split: list.splits if_splits)
  then have "length rest < length ?s4"
    by simp
  also have "length ?s4 \<le> length s1"
    by (meson length_dropWhile_le order_trans)
  finally show ?thesis
    using s by simp
qed

function replaceTokens :: "(char \<Rightarrow> bool) \<Rightarrow> (string \<Rightarrow> string) \<Rightarrow> string \<Rightarrow> string" where
  \<comment> \<open>\<open>s.replace(re, f)\<close> for a global token expression: matches are looked for from the
      left, each search starting where the last match ended, in the text as it was.\<close>
  "replaceTokens keyChar f [] = []"
| "replaceTokens keyChar f (c # cs) =
     (case matchToken keyChar (c # cs) of
        None \<Rightarrow> c # replaceTokens keyChar f cs
      | Some (key, rest) \<Rightarrow> f key @ replaceTokens keyChar f rest)"
  by pat_completeness auto
termination
  by (relation "measure (\<lambda>(keyChar, f, s). length s)")
     (auto dest: matchToken_shorter)

text \<open>
  What a lookup of the renderer can reach: a JSON value, a built-in function (by its
  name), or one of the two prototypes. The members are those of ECMAScript 2023, which
  Node.js has from version 20 on, and a built-in function prints as Node.js prints it.
\<close>

datatype jsval =
    Data json
  | Native string
  | ObjectPrototype
  | ArrayPrototype

definition objectPrototypeNames :: "string list" where
  \<comment> \<open>The own property names of \<open>Object.prototype\<close>.\<close>
  "objectPrototypeNames =
     [''constructor'', ''__defineGetter__'', ''__defineSetter__'', ''hasOwnProperty'',
      ''__lookupGetter__'', ''__lookupSetter__'', ''isPrototypeOf'', ''propertyIsEnumerable'',
      ''toString'', ''valueOf'', ''__proto__'', ''toLocaleString'']"

definition arrayMethodNames :: "string list" where
  \<comment> \<open>The methods of \<open>Array.prototype\<close>.\<close>
  "arrayMethodNames =
     [''at'', ''concat'', ''copyWithin'', ''fill'', ''find'', ''findIndex'', ''findLast'',
      ''findLastIndex'', ''lastIndexOf'', ''pop'', ''push'', ''reverse'', ''shift'', ''unshift'',
      ''slice'', ''sort'', ''splice'', ''includes'', ''indexOf'', ''join'', ''keys'', ''entries'',
      ''values'', ''forEach'', ''filter'', ''flat'', ''flatMap'', ''map'', ''every'', ''some'',
      ''reduce'', ''reduceRight'', ''toLocaleString'', ''toString'', ''toReversed'', ''toSorted'',
      ''toSpliced'', ''with'']"

definition objectPrototypeMember :: "jsval \<Rightarrow> string \<Rightarrow> jsval option" where
  \<comment> \<open>A member of \<open>Object.prototype\<close>, read through a value whose prototype is the first
      argument: the accessor \<open>__proto__\<close> gives that prototype.\<close>
  "objectPrototypeMember proto key =
     (if key = ''__proto__'' then Some proto
      else if key = ''constructor'' then Some (Native ''Object'')
      else if List.member objectPrototypeNames key then Some (Native key)
      else None)"

definition arrayPrototypeMember :: "jsval \<Rightarrow> string \<Rightarrow> jsval option" where
  \<comment> \<open>A member of \<open>Array.prototype\<close> other than \<open>length\<close>, or of \<open>Object.prototype\<close> behind it.\<close>
  "arrayPrototypeMember proto key =
     (if key = ''constructor'' then Some (Native ''Array'')
      else if List.member arrayMethodNames key then Some (Native key)
      else objectPrototypeMember proto key)"

fun property :: "jsval \<Rightarrow> string \<Rightarrow> jsval option" where
  \<comment> \<open>\<open>value[key]\<close> for a value that is an object; \<open>None\<close> where \<open>key in value\<close> is false
      and the read gives \<open>undefined\<close>. An own property comes before an inherited one.\<close>
  "property (Data (JObj kvs)) key =
     (case map_of kvs key of
        Some v \<Rightarrow> Some (Data v)
      | None \<Rightarrow> objectPrototypeMember ObjectPrototype key)"
| "property (Data (JArr xs)) key =
     (case ownProperty (JArr xs) key of
        Some v \<Rightarrow> Some (Data v)
      | None \<Rightarrow> arrayPrototypeMember ArrayPrototype key)"
| "property ObjectPrototype key = objectPrototypeMember (Data JNull) key"
| "property ArrayPrototype key =
     (if key = ''length'' then Some (Data (JNum 0))
      else arrayPrototypeMember ObjectPrototype key)"
| "property v key = None"

fun isObjectValue :: "jsval \<Rightarrow> bool" where
  \<comment> \<open>\<open>value && typeof value === 'object'\<close>; a function has another type.\<close>
  "isObjectValue (Data v) = isObject v"
| "isObjectValue (Native name) = False"
| "isObjectValue ObjectPrototype = True"
| "isObjectValue ArrayPrototype = True"

fun valueText :: "jsval \<Rightarrow> string" where
  \<comment> \<open>\<open>String(value)\<close>. \<open>Array.prototype\<close> is an empty array.\<close>
  "valueText (Data v) = js_String v"
| "valueText (Native name) = ''function '' @ name @ ''() { [native code] }''"
| "valueText ObjectPrototype = ''[object Object]''"
| "valueText ArrayPrototype = []"

definition lookupVar :: "(string \<times> json) list \<Rightarrow> string \<Rightarrow> string" where
  \<comment> \<open>The first pass: \<open>vars[key]\<close>, the empty string when it is \<open>undefined\<close>.\<close>
  "lookupVar vars key =
     (case property (Data (JObj vars)) key of None \<Rightarrow> [] | Some v \<Rightarrow> valueText v)"

fun traverse :: "jsval \<Rightarrow> string list \<Rightarrow> jsval option" where
  \<comment> \<open>The loop over the keys of a path; \<open>None\<close> is the early \<open>return ""\<close>.\<close>
  "traverse v [] = Some v"
| "traverse v (key # keys) =
     (if isObjectValue v
      then (case property v key of None \<Rightarrow> None | Some w \<Rightarrow> traverse w keys)
      else None)"

definition lookupPath :: "(string \<times> json) list \<Rightarrow> string \<Rightarrow> string" where
  \<comment> \<open>The second pass: the path is split at the dots and followed from \<open>vars\<close>; an array
      is joined, \<open>null\<close> gives the empty string, any other value is printed.\<close>
  "lookupPath vars path =
     (case traverse (Data (JObj vars)) (splitOn (CHR ''.'') path) of
        None \<Rightarrow> []
      | Some (Data (JArr xs)) \<Rightarrow> arrayJoin ''. '' xs
      | Some ArrayPrototype \<Rightarrow> []
      | Some (Data JNull) \<Rightarrow> []
      | Some v \<Rightarrow> valueText v)"


definition isPathChar :: "char \<Rightarrow> bool" where
  \<comment> \<open>The class \<open>[\w.]\<close>.\<close>
  "isPathChar c = (isWord c \<or> c = CHR ''.'')"

definition renderTemplate :: "string \<Rightarrow> (string \<times> json) list \<Rightarrow> string" where
  "renderTemplate template vars =
     (let result = replaceTokens isWord (lookupVar vars) template
      in replaceTokens isPathChar (lookupPath vars) result)"

subsection \<open>The prompt bundle\<close>

record RagAnswerInput =
  in_question :: string
  in_context :: string
  in_character :: "json option"
  in_refusalText :: "string option"
  in_guardrails :: "json option"
  in_conversationHistory :: "json list"

record RagPrompt =
  system :: string
  user :: string
  shouldRefuse :: bool

definition buildRagOnlyPrompt :: "(string \<Rightarrow> string option) \<Rightarrow> RagAnswerInput \<Rightarrow> RagPrompt" where
  "buildRagOnlyPrompt promptDir input =
     (let systemPrompt = readPrompt promptDir ''system.txt'';
          characterPrompt = readPrompt promptDir ''character.txt'';
          answerPrompt = readPrompt promptDir ''answer_with_rag.txt'';
          refusalText = (case in_refusalText input of
                           None \<Rightarrow> readPrompt promptDir ''refusal.txt''
                         | Some r \<Rightarrow> r);
          context = trim (in_context input);
          shouldRefuse = (length context = 0);
          character = (case in_character input of
                         None \<Rightarrow> JStr []
                       | Some JNull \<Rightarrow> JStr []
                       | Some c \<Rightarrow> c);
          guardrails = (case in_guardrails input of
                          None \<Rightarrow> JObj []
                        | Some g \<Rightarrow> if truthy g then g else JObj []);
          system = join (nl @ nl)
                     (filter (\<lambda>s. s \<noteq> [])
                        [systemPrompt, renderTemplate characterPrompt [(''character'', character)]]);
          user = renderTemplate answerPrompt
                   [(''context'', JStr context),
                    (''question'', JStr (in_question input)),
                    (''character'', character),
                    (''refusal_text'', JStr refusalText),
                    (''guardrails'', guardrails)]
      in \<lparr>system = system, user = user, shouldRefuse = shouldRefuse\<rparr>)"

definition buildRefusalText :: "(string \<Rightarrow> string option) \<Rightarrow> nat \<Rightarrow> string" where
  \<comment> \<open>The second argument stands for \<open>Math.random()\<close>: the option it selects is the
      number modulo the number of options. Lines are split at line feeds; a carriage
      return before one is white space that the trimming removes.\<close>
  "buildRefusalText promptDir random =
     (let raw = readPrompt promptDir ''refusal.txt'';
          options = filter (\<lambda>line. length line > 0) (map trim (splitOn (CHR 0x0A) raw))
      in if length options = 0 then []
         else options ! (random mod length options))"

definition loadSafetyConfig ::
  "(string \<Rightarrow> string option) \<Rightarrow> json_file \<Rightarrow> js_exception + SafetyConfig" where
  \<comment> \<open>The arguments are the text files of \<open>ai/safety\<close> and its \<open>forbidden_topics.json\<close>.
      A topic is only ever used through \<open>String(topic)\<close>, applied here.\<close>
  "loadSafetyConfig safetyDir forbiddenFile =
     (let forbidden = readJsonSafe forbiddenFile
      in if forbidden = JNull then Inl TypeError
         else
           let topics = (case ownProperty forbidden ''hard_blocked_topics'' of
                           Some (JArr ts) \<Rightarrow> map js_String ts
                         | _ \<Rightarrow> [])
           in Inr \<lparr>forbiddenTopics = topics,
                   childSafeRules = readSafetyFile safetyDir ''child_safe_rules.txt'',
                   escalationPolicy = readSafetyFile safetyDir ''escalation_policy.md''\<rparr>)"

section \<open>The pipeline runner\<close>

text \<open>
  The files a request reads, and the draw of \<open>Math.random()\<close> for the refusal text.
\<close>

record World =
  primaryRagDir :: "string \<Rightarrow> KnowledgeDir"
  promptDir :: "string \<Rightarrow> string option"
  safetyDir :: "string \<Rightarrow> string option"
  forbiddenTopicsFile :: json_file
  randomDraw :: nat

record PipelineInputs =
  prompt :: RagPrompt
  primary :: PrimaryRagResult
  safety :: SafetyConfig
  refusalText :: string
  conversationHistory :: "json list"

definition loadPipelineInputs ::
  "World \<Rightarrow> string \<Rightarrow> string \<Rightarrow> json list \<Rightarrow> js_exception + PipelineInputs" where
  "loadPipelineInputs world characterSlug message history =
     (case loadPrimaryRag (primaryRagDir world) characterSlug of
        Inl e \<Rightarrow> Inl e
      | Inr rag \<Rightarrow>
          (case loadSafetyConfig (safetyDir world) (forbiddenTopicsFile world) of
             Inl e \<Rightarrow> Inl e
           | Inr safetyConfig \<Rightarrow>
               let refusal = buildRefusalText (promptDir world) (randomDraw world);
                   built = buildRagOnlyPrompt (promptDir world)
                             \<lparr>in_question = message,
                              in_context = ragContext rag,
                              in_character = Some (characterName rag),
                              in_refusalText = Some refusal,
                              in_guardrails = Some (ragGuardrails rag),
                              in_conversationHistory = history\<rparr>
               in Inr \<lparr>prompt = built, primary = rag, safety = safetyConfig,
                       refusalText = refusal, conversationHistory = history\<rparr>))"

definition applySafety :: "string \<Rightarrow> SafetyConfig \<Rightarrow> json \<Rightarrow> string \<Rightarrow> string" where
  "applySafety answer safetyConfig guardrails refusal =
     enforceSafety answer safetyConfig guardrails refusal"

section \<open>The secondary provider (the Gemini client)\<close>

record js_error =
  errMessage :: string
  errStatusCode :: "nat option"

definition statusOf :: "js_error \<Rightarrow> nat" where
  \<comment> \<open>\<open>Number(error?.statusCode || 0)\<close>.\<close>
  "statusOf e = (case errStatusCode e of None \<Rightarrow> 0 | Some n \<Rightarrow> n)"

definition DEFAULT_GEMINI_MODEL :: string where
  "DEFAULT_GEMINI_MODEL = ''gemini-1.5-flash''"

definition FALLBACK_MODELS :: "string list" where
  "FALLBACK_MODELS = [''gemini-1.5-pro'', ''gemini-1.0-pro'']"

definition PREFERRED_MODELS :: "string list" where
  "PREFERRED_MODELS = DEFAULT_GEMINI_MODEL # FALLBACK_MODELS"

record Content =
  role :: string
  partText :: string

fun indexOf :: "'a list \<Rightarrow> 'a \<Rightarrow> nat" where
  \<comment> \<open>The first position of a value in a list that holds it.\<close>
  "indexOf [] v = 0"
| "indexOf (x # xs) v = (if x = v then 0 else Suc (indexOf xs v))"

definition firstOccurrences :: "'a list \<Rightarrow> 'a list" where
  \<comment> \<open>\<open>self.filter((value, index, self) => self.indexOf(value) === index)\<close>.\<close>
  "firstOccurrences self =
     map (\<lambda>index. self ! index)
       (filter (\<lambda>index. indexOf self (self ! index) = index) [0..<length self])"

definition toContent :: "json \<Rightarrow> Content option" where
  \<comment> \<open>One turn of the history; a turn without a role or a content is left out.\<close>
  "toContent msg =
     (case (ownProperty msg ''role'', ownProperty msg ''content'') of
        (Some r, Some c) \<Rightarrow>
          if truthy r \<and> truthy c
          then Some \<lparr>role = (if r = JStr ''assistant'' then ''model'' else ''user''),
                     partText = js_String c\<rparr>
          else None
      | _ \<Rightarrow> None)"

datatype gemini_call = GenerateContent string | ListModels

text \<open>
  The network: what the \<open>n\<close>-th \<open>generateContent\<close> request of a call answers for a model,
  and what the list-models request answers.
\<close>

record GeminiEnv =
  GEMINI_API_KEY :: "string option"
  GEMINI_MODEL :: "string option"
  requestGemini :: "nat \<Rightarrow> string \<Rightarrow> string \<Rightarrow> Content list \<Rightarrow> js_error + string"
  listGeminiModels :: "string \<Rightarrow> js_error + string list"

function candidateLoop ::
  "(nat \<Rightarrow> string \<Rightarrow> js_error + string) \<Rightarrow> string list \<Rightarrow> nat \<Rightarrow> js_error option
     \<Rightarrow> gemini_call list \<times> (js_error option + string)" where
  \<comment> \<open>The \<open>for\<close> loop over the candidate models, from index \<open>i\<close>: the requests it makes,
      and either the text returned or \<open>lastError\<close> as the loop leaves it.\<close>
  "candidateLoop request models i lastError =
     (if i < length models
      then (case request i (models ! i) of
              Inr generated \<Rightarrow> ([GenerateContent (models ! i)], Inr generated)
            | Inl error \<Rightarrow>
                if statusOf error \<noteq> 404
                then ([GenerateContent (models ! i)], Inl (Some error))
                else (GenerateContent (models ! i) #
                        fst (candidateLoop request models (i + 1) (Some error)),
                      snd (candidateLoop request models (i + 1) (Some error))))
      else ([], Inl lastError))"
  by pat_completeness auto
termination
  by (relation "measure (\<lambda>(request, models, i, lastError). length models - i)") auto

definition candidateModels :: "GeminiEnv \<Rightarrow> string list" where
  \<comment> \<open>The constant \<open>models\<close>: the configured model, the default, the fallbacks, each once.\<close>
  "candidateModels env =
     (let configured = (case GEMINI_MODEL env of
                          None \<Rightarrow> DEFAULT_GEMINI_MODEL
                        | Some m \<Rightarrow> if m = [] then DEFAULT_GEMINI_MODEL else m)
      in firstOccurrences ([configured, DEFAULT_GEMINI_MODEL] @ FALLBACK_MODELS))"

definition geminiContents :: "string \<Rightarrow> json list \<Rightarrow> string \<Rightarrow> Content list" where
  \<comment> \<open>The constant \<open>contents\<close>: the system prompt as a first user turn, the history, the
      user prompt.\<close>
  "geminiContents systemPrompt history userPrompt =
     [\<lparr>role = ''user'', partText = systemPrompt\<rparr>] @
     List.map_filter toContent (filter truthy history) @
     [\<lparr>role = ''user'', partText = userPrompt\<rparr>]"

definition callGemini ::
  "GeminiEnv \<Rightarrow> string \<Rightarrow> string \<Rightarrow> json list \<Rightarrow> gemini_call list \<times> (js_error + string)" where
  \<comment> \<open>The requests the call makes, in order, and the text it returns or the error it
      throws.\<close>
  "callGemini env systemPrompt userPrompt history =
     (case GEMINI_API_KEY env of
        None \<Rightarrow> ([], Inl \<lparr>errMessage = ''Missing GEMINI_API_KEY'', errStatusCode = None\<rparr>)
      | Some apiKey \<Rightarrow>
          if apiKey = []
          then ([], Inl \<lparr>errMessage = ''Missing GEMINI_API_KEY'', errStatusCode = None\<rparr>)
          else
            let models = candidateModels env;
                contents = geminiContents systemPrompt history userPrompt;
                request = (\<lambda>n model. requestGemini env n model apiKey contents)
            in (case candidateLoop request models 0 None of
                  (calls, Inr generated) \<Rightarrow> (calls, Inr generated)
                | (calls, Inl lastError) \<Rightarrow>
                    (case listGeminiModels env apiKey of
                       Inl error \<Rightarrow> (calls @ [ListModels], Inl error)
                     | Inr available \<Rightarrow>
                         let preferred = find (\<lambda>model. List.member available model) PREFERRED_MODELS;
                             fallback = (case preferred of
                                           Some m \<Rightarrow> m
                                         | None \<Rightarrow> (case available of [] \<Rightarrow> [] | a # rest \<Rightarrow> a))
                         in if fallback \<noteq> []
                            then (calls @ [ListModels, GenerateContent fallback],
                                  (case request (length calls) fallback of
                                     Inr generated \<Rightarrow> Inr generated
                                   | Inl error \<Rightarrow> Inl error))
                            else (calls @ [ListModels],
                                  Inl (case lastError of
                                         Some e \<Rightarrow> e
                                       | None \<Rightarrow> \<lparr>errMessage = ''Gemini failed'',
                                                    errStatusCode = None\<rparr>)))))"

section \<open>The chat handler\<close>

record Request =
  reqMethod :: string
  reqUrl :: string
  reqBody :: "json option"

text \<open>
  \<open>reqBody\<close> is what \<open>JSON.parse\<close> makes of the body text, an empty body read as \<open>{}\<close>;
  \<open>None\<close> when it throws. A log record is kept without its time stamp, which
  \<open>toISOString\<close> never gives as an empty string. The event \<open>LogWrite\<close> is the logger
  appending a record to the log file; the append is taken to succeed (the logger
  swallows a failure of the file system, and the handler goes on the same).
\<close>

record UnansweredRecord =
  logCharacter :: string
  logMessage :: string
  logReason :: string

datatype event =
    OpenAICall string string "json list"
  | GeminiCall string string "json list"
  | LogWrite UnansweredRecord

datatype response =
    NoContent
  | ErrorJson nat string
  | AnswerJson string bool

datatype outcome = Responded response | Thrown js_exception

definition logUnansweredQuestion :: "UnansweredRecord \<Rightarrow> event list" where
  \<comment> \<open>A record with an empty field is not written.\<close>
  "logUnansweredQuestion entry =
     (if logCharacter entry = [] \<or> logMessage entry = [] \<or> logReason entry = [] then []
      else [LogWrite entry])"

definition stringOrEmpty :: "json option \<Rightarrow> string" where
  \<comment> \<open>\<open>String(v || "")\<close>.\<close>
  "stringOrEmpty v = (case v of None \<Rightarrow> [] | Some x \<Rightarrow> if truthy x then js_String x else [])"

definition normalize :: "string \<Rightarrow> string" where
  "normalize t = collapseSpace (trim t)"

definition isQuotaError :: "string \<Rightarrow> bool" where
  "isQuotaError openAiMessage =
     (str_includes openAiMessage ''insufficient_quota'' \<or>
      str_includes openAiMessage ''OpenAI error 429'' \<or>
      str_includes openAiMessage ''Missing OPENAI_API_KEY'')"

definition messageOr :: "js_error \<Rightarrow> string \<Rightarrow> string" where
  \<comment> \<open>\<open>String(error?.message || fallback)\<close>.\<close>
  "messageOr error fallback = (if errMessage error = [] then fallback else errMessage error)"

definition respond :: "string \<Rightarrow> string \<Rightarrow> PipelineInputs \<Rightarrow> string \<Rightarrow> event list \<times> outcome" where
  \<comment> \<open>The end of the handler, where its paths that have a raw answer meet.\<close>
  "respond characterSlug message pipeline rawAnswer =
     (let modelRefusal =
            (if normalize rawAnswer = normalize (refusalText pipeline)
             then logUnansweredQuestion \<lparr>logCharacter = characterSlug, logMessage = message,
                    logReason = ''model_refusal''\<rparr>
             else []);
          safeAnswer = applySafety rawAnswer (safety pipeline)
                         (ragGuardrails (primary pipeline)) (refusalText pipeline);
          safetyRefusal =
            (if normalize safeAnswer = normalize (refusalText pipeline)
             then logUnansweredQuestion \<lparr>logCharacter = characterSlug, logMessage = message,
                    logReason = ''safety_refusal''\<rparr>
             else [])
      in (modelRefusal @ safetyRefusal,
          Responded (AnswerJson safeAnswer (shouldRefuse (prompt pipeline)))))"

definition validateRequest :: "Request \<Rightarrow> outcome + (string \<times> string \<times> json list)" where
  \<comment> \<open>The handler up to the loading of the pipeline: either the request ends here, or
      it goes on with the message, the character slug and the conversation history.
      Reading \<open>payload.message\<close> of a body that is \<open>null\<close> throws.\<close>
  "validateRequest req =
     (if reqMethod req = ''OPTIONS'' then Inl (Responded NoContent)
      else if reqMethod req \<noteq> ''POST'' \<or> reqUrl req \<noteq> ''/api/chat''
      then Inl (Responded (ErrorJson 404 ''Not found''))
      else (case reqBody req of
          None \<Rightarrow> Inl (Responded (ErrorJson 400 ''Invalid JSON''))
        | Some payload \<Rightarrow>
            if payload = JNull then Inl (Thrown TypeError)
            else
              let message = trim (stringOrEmpty (ownProperty payload ''message''));
                  characterSlug =
                    toLowerCase (trim (stringOrEmpty (ownProperty payload ''character'')));
                  history = (case ownProperty payload ''conversationHistory'' of
                               Some (JArr h) \<Rightarrow> h
                             | _ \<Rightarrow> [])
              in if message = [] then Inl (Responded (ErrorJson 400 ''Missing message''))
                 else if characterSlug = []
                 then Inl (Responded (ErrorJson 400 ''Missing character''))
                 else Inr (message, characterSlug, history)))"

definition handleChatRequest ::
  "(string \<Rightarrow> string \<Rightarrow> json list \<Rightarrow> js_exception + PipelineInputs)
     \<Rightarrow> (string \<Rightarrow> string \<Rightarrow> json list \<Rightarrow> js_error + string)
     \<Rightarrow> (string \<Rightarrow> string \<Rightarrow> json list \<Rightarrow> js_error + string)
     \<Rightarrow> Request \<Rightarrow> event list \<times> outcome" where
  \<comment> \<open>The modules the handler requires are its first three arguments: the pipeline
      loader and the two providers. The result is what the request did, in order, and how
      it ended.\<close>
  "handleChatRequest loadInputs callOpenAI callSecondary req =
     (case validateRequest req of
        Inl ended \<Rightarrow> ([], ended)
      | Inr (message, characterSlug, history) \<Rightarrow>
          (case loadInputs characterSlug message history of
             Inl e \<Rightarrow> ([], Thrown e)
           | Inr pipeline \<Rightarrow>
               if shouldRefuse (prompt pipeline)
               then (logUnansweredQuestion \<lparr>logCharacter = characterSlug,
                         logMessage = message, logReason = ''empty_context''\<rparr> @
                       fst (respond characterSlug message pipeline (refusalText pipeline)),
                     snd (respond characterSlug message pipeline (refusalText pipeline)))
               else
                 let sys = system (prompt pipeline);
                     usr = user (prompt pipeline);
                     hist = conversationHistory pipeline
                 in (case callOpenAI sys usr hist of
                     Inr rawAnswer \<Rightarrow>
                       (OpenAICall sys usr hist #
                          fst (respond characterSlug message pipeline rawAnswer),
                        snd (respond characterSlug message pipeline rawAnswer))
                   | Inl error \<Rightarrow>
                       let openAiMessage = messageOr error ''OpenAI failed''
                       in if \<not> isQuotaError openAiMessage
                          then (OpenAICall sys usr hist #
                                  logUnansweredQuestion \<lparr>logCharacter = characterSlug,
                                    logMessage = message,
                                    logReason = ''openai_error:'' @ openAiMessage\<rparr>,
                                Responded (ErrorJson 500 (''OpenAI failed: '' @ openAiMessage)))
                          else (case callSecondary sys usr hist of
                              Inr rawAnswer \<Rightarrow>
                                (OpenAICall sys usr hist # GeminiCall sys usr hist #
                                   fst (respond characterSlug message pipeline rawAnswer),
                                 snd (respond characterSlug message pipeline rawAnswer))
                            | Inl fallbackError \<Rightarrow>
                                let fallbackMessage = messageOr fallbackError ''Gemini failed''
                                in (OpenAICall sys usr hist # GeminiCall sys usr hist #
                                      logUnansweredQuestion
                                        \<lparr>logCharacter = characterSlug,
                                         logMessage = message,
                                         logReason = ''gemini_error:'' @ fallbackMessage\<rparr>,
                                    Responded (ErrorJson 500
                                      (''OpenAI failed: '' @ openAiMessage @
                                       ''. Gemini failed: '' @ fallbackMessage)))))))"

definition chatServer ::
  "World \<Rightarrow> (string \<Rightarrow> string \<Rightarrow> json list \<Rightarrow> js_error + string) \<Rightarrow> GeminiEnv
     \<Rightarrow> Request \<Rightarrow> event list \<times> outcome" where
  \<comment> \<open>The handler with the modules of the repository in place: the pipeline runner over
      the files, and \<open>callGemini\<close> over the network.\<close>
  "chatServer world callOpenAI env req =
     handleChatRequest (loadPipelineInputs world) callOpenAI
       (\<lambda>sys usr hist. snd (callGemini env sys usr hist)) req"

fun isProviderCall :: "event \<Rightarrow> bool" where
  "isProviderCall (OpenAICall sys usr hist) = True"
| "isProviderCall (GeminiCall sys usr hist) = True"
| "isProviderCall (LogWrite r) = False"

fun isGeminiCall :: "event \<Rightarrow> bool" where
  "isGeminiCall (GeminiCall sys usr hist) = True"
| "isGeminiCall e = False"

subsection \<open>Containment, as the specification words it\<close>

definition occurs_in :: "string \<Rightarrow> string \<Rightarrow> bool" where
  \<comment> \<open>\<open>p\<close> is a substring of \<open>s\<close>.\<close>
  "occurs_in p s = (\<exists>before after. s = before @ p @ after)"

definition occurs_ci :: "string \<Rightarrow> string \<Rightarrow> bool" where
  \<comment> \<open>\<open>p\<close> is a substring of \<open>s\<close> when the case of letters is ignored.\<close>
  "occurs_ci p s = occurs_in (toLowerCase p) (toLowerCase s)"

definition personalKeywords :: "string list" where
  "personalKeywords = [''address'', ''phone'', ''email'', ''last name'', ''full name'']"

section \<open>Example inputs\<close>

definition noKnowledge :: "string \<Rightarrow> KnowledgeDir" where
  \<comment> \<open>No character has a knowledge file.\<close>
  "noKnowledge slug = \<lparr>identity_json = Missing, style_json = Missing, guardrails_json = Missing\<rparr>"

definition examplePrompts :: "string \<Rightarrow> string option" where
  "examplePrompts fileName =
     (if fileName = ''system.txt'' then Some ''Answer as the character.''
      else if fileName = ''character.txt'' then Some ''You are {{character}}.''
      else if fileName = ''answer_with_rag.txt'' then Some ''{{context}} Q: {{question}}''
      else if fileName = ''refusal.txt'' then Some ''I am not sure about that.''
      else None)"

definition noKnowledgeWorld :: World where
  "noKnowledgeWorld =
     \<lparr>primaryRagDir = noKnowledge, promptDir = examplePrompts, safetyDir = (\<lambda>fileName. None),
      forbiddenTopicsFile = Missing, randomDraw = 0\<rparr>"

definition helloRequest :: Request where
  "helloRequest =
     \<lparr>reqMethod = ''POST'', reqUrl = ''/api/chat'',
      reqBody = Some (JObj [(''message'', JStr ''hello''), (''character'', JStr ''Nobody'')])\<rparr>"

definition answers :: "string \<Rightarrow> string \<Rightarrow> string \<Rightarrow> json list \<Rightarrow> js_error + string" where
  \<comment> \<open>A provider that returns the given text.\<close>
  "answers generated sys usr hist = Inr generated"

definition failsWith :: "string \<Rightarrow> string \<Rightarrow> string \<Rightarrow> json list \<Rightarrow> js_error + string" where
  \<comment> \<open>A provider that fails with the given message.\<close>
  "failsWith msg sys usr hist = Inl \<lparr>errMessage = msg, errStatusCode = None\<rparr>"



definition pipelineOf :: "string \<Rightarrow> string \<Rightarrow> string \<Rightarrow> json list \<Rightarrow> PipelineInputs" where
  \<comment> \<open>The pipeline inputs as the pipeline runner builds them, from a loader of primary
      knowledge that returned the given context.\<close>
  "pipelineOf ctx slug message history =
     \<lparr>prompt = buildRagOnlyPrompt examplePrompts
                 \<lparr>in_question = message, in_context = ctx, in_character = Some (JStr slug),
                  in_refusalText = Some ''I am not sure about that.'',
                  in_guardrails = Some (JObj []), in_conversationHistory = history\<rparr>,
      primary = \<lparr>ragContext = ctx, ragGuardrails = JObj [], characterId = JStr slug,
                 characterName = JStr slug\<rparr>,
      safety = \<lparr>forbiddenTopics = [], childSafeRules = [], escalationPolicy = []\<rparr>,
      refusalText = ''I am not sure about that.'',
      conversationHistory = history\<rparr>"

definition contextInputs ::
  "string \<Rightarrow> string \<Rightarrow> string \<Rightarrow> json list \<Rightarrow> js_exception + PipelineInputs" where
  "contextInputs ctx slug message history = Inr (pipelineOf ctx slug message history)"

definition noKnowledgeRag :: PrimaryRagResult where
  "noKnowledgeRag =
     \<lparr>ragContext = ''## Identity'' @ nl @ ''{}'' @ nl @ nl @ ''## Style'' @ nl @ ''{}'' @ nl,
      ragGuardrails = JObj [], characterId = JStr ''nobody'', characterName = JStr ''nobody''\<rparr>"

subsection \<open>The quota class, as the specification words it\<close>

definition quotaClass :: "string \<Rightarrow> bool" where
  \<comment> \<open>The failure message holds one of the three markers.\<close>
  "quotaClass msg =
     (occurs_in ''insufficient_quota'' msg \<or>
      occurs_in ''OpenAI error 429'' msg \<or>
      occurs_in ''Missing OPENAI_API_KEY'' msg)"

subsection \<open>Templates as segments\<close>











section \<open>Substring search\<close>

lemma startsWith_iff: "startsWith s p \<longleftrightarrow> (\<exists>after. s = p @ after)"
  by (induction s p rule: startsWith.induct) auto

lemma str_includes_iff: "str_includes s p \<longleftrightarrow> occurs_in p s"
proof (induction s)
  case Nil
  show ?case by (auto simp: occurs_in_def)
next
  case (Cons c cs)
  show ?case
  proof
    assume "str_includes (c # cs) p"
    then consider "startsWith (c # cs) p" | "str_includes cs p" by auto
    then show "occurs_in p (c # cs)"
    proof cases
      case 1
      then obtain after where "c # cs = p @ after" by (auto simp: startsWith_iff)
      then have "c # cs = [] @ p @ after" by simp
      then show ?thesis unfolding occurs_in_def by blast
    next
      case 2
      then obtain before after where "cs = before @ p @ after"
        using Cons.IH by (auto simp: occurs_in_def)
      then have "c # cs = (c # before) @ p @ after" by simp
      then show ?thesis unfolding occurs_in_def by blast
    qed
  next
    assume "occurs_in p (c # cs)"
    then obtain before after where eq: "c # cs = before @ p @ after"
      by (auto simp: occurs_in_def)
    show "str_includes (c # cs) p"
    proof (cases before)
      case Nil
      with eq have "startsWith (c # cs) p" by (auto simp: startsWith_iff)
      then show ?thesis by simp
    next
      case (Cons b bs)
      with eq have "cs = bs @ p @ after" by simp
      then have "occurs_in p cs" unfolding occurs_in_def by blast
      then show ?thesis using Cons.IH by simp
    qed
  qed
qed

lemma containsForbiddenTopic_iff:
  "containsForbiddenTopic text topics \<longleftrightarrow> (\<exists>t \<in> set topics. occurs_ci t text)"
  by (simp add: containsForbiddenTopic_def Let_def list_ex_iff str_includes_iff occurs_ci_def)

lemma toLowerCase_keyword:
  "k \<in> set personalKeywords \<Longrightarrow> toLowerCase k = k"
  by (auto simp: personalKeywords_def toLowerCase_def toLowerChar_def)

lemma asksForPersonalInfo_iff:
  "asksForPersonalInfo text \<longleftrightarrow> (\<exists>k \<in> set personalKeywords. occurs_ci k text)"
proof -
  have "(\<exists>k \<in> set personalKeywords. occurs_ci k text) \<longleftrightarrow>
        (\<exists>k \<in> set personalKeywords. occurs_in k (toLowerCase text))"
    by (auto simp: occurs_ci_def toLowerCase_keyword)
  also have "\<dots> \<longleftrightarrow> asksForPersonalInfo text"
    by (simp add: asksForPersonalInfo_def Let_def personalKeywords_def str_includes_iff)
  finally show ?thesis by simp
qed

section \<open>Trimming, joining and the context loader\<close>

lemma join_Cons: "join sep (x # xs) = x @ (if xs = [] then [] else sep @ join sep xs)"
  by (cases xs) auto

lemma trim_nonempty:
  assumes "\<not> isSpace c"
  shows "trim (c # cs) \<noteq> []"
proof -
  have "dropWhile isSpace (c # cs) = c # cs"
    using assms by simp
  moreover have "dropWhile isSpace (rev (c # cs)) \<noteq> []"
    using assms by (auto simp: dropWhile_eq_Nil_conv)
  ultimately show ?thesis
    by (simp add: trim_def)
qed

lemma shouldRefuse_buildRagOnlyPrompt:
  "shouldRefuse (buildRagOnlyPrompt prompts input) \<longleftrightarrow> trim (in_context input) = []"
  by (simp add: buildRagOnlyPrompt_def Let_def)

lemma loadPrimaryRag_sections:
  assumes "loadPrimaryRag dir slug = Inr rag"
  shows "\<exists>sections. ragContext rag =
           join nl (filter (\<lambda>s. s \<noteq> [])
             (formatSection ''Identity'' (readJsonSafe (identity_json (dir slug))) #
              formatSection ''Style'' (readJsonSafe (style_json (dir slug))) # sections))"
proof -
  let ?identity = "readJsonSafe (identity_json (dir slug))"
  have nn: "?identity \<noteq> JNull"
  proof
    assume "?identity = JNull"
    then have "loadPrimaryRag dir slug = Inl TypeError"
      by (simp add: loadPrimaryRag_def)
    with assms show False by simp
  qed
  obtain facts where bf: "backgroundFactsOf ?identity = Inr facts"
  proof (cases "backgroundFactsOf ?identity")
    case (Inl e)
    with nn have "loadPrimaryRag dir slug = Inl e"
      by (simp add: loadPrimaryRag_def Let_def)
    with assms show ?thesis by simp
  next
    case (Inr facts)
    then show ?thesis by (rule that)
  qed
  from nn bf have "\<exists>sections. map_sum id ragContext (loadPrimaryRag dir slug) =
      Inr (join nl (filter (\<lambda>s. s \<noteq> [])
             (formatSection ''Identity'' ?identity #
              formatSection ''Style'' (readJsonSafe (style_json (dir slug))) # sections)))"
    unfolding loadPrimaryRag_def Let_def
    by (simp only: if_False sum.case map_sum.simps PrimaryRagResult.simps id_apply) blast
  with assms show ?thesis by simp
qed

lemma ragContext_starts:
  assumes "loadPrimaryRag dir slug = Inr rag"
  shows "\<exists>rest. ragContext rag = ''## Identity'' @ rest"
proof -
  let ?identity = "readJsonSafe (identity_json (dir slug))"
  from loadPrimaryRag_sections [OF assms] obtain sections where
    ctx: "ragContext rag = join nl (filter (\<lambda>s. s \<noteq> [])
            (formatSection ''Identity'' ?identity # sections))"
    by blast
  have ne: "formatSection ''Identity'' ?identity \<noteq> []"
    by (simp add: formatSection_def)
  have "ragContext rag = formatSection ''Identity'' ?identity @
      (if filter (\<lambda>s. s \<noteq> []) sections = [] then []
       else nl @ join nl (filter (\<lambda>s. s \<noteq> []) sections))"
    unfolding ctx using ne by (simp add: join_Cons del: join.simps)
  then show ?thesis
    by (simp add: formatSection_def)
qed

lemma loadPrimaryRag_no_identity:
  assumes "identity_json (dir slug) = Missing \<or> identity_json (dir slug) = Malformed"
  shows "\<exists>rag. loadPrimaryRag dir slug = Inr rag"
proof -
  from assms have id: "readJsonSafe (identity_json (dir slug)) = JObj []"
    by (auto simp: readJsonSafe_def)
  have bf: "backgroundFactsOf (JObj []) = Inr []"
    by (simp add: backgroundFactsOf_def)
  show ?thesis
    by (simp add: loadPrimaryRag_def Let_def id bf del: filter.simps join.simps)
qed

lemma validateRequest_Inr:
  assumes "validateRequest req = Inr (message, slug, history)"
  shows "message \<noteq> [] \<and> slug \<noteq> []"
  using assms
  by (auto simp: validateRequest_def Let_def split: if_splits option.splits)

section \<open>The handler's events\<close>

lemma startsWith_append: "startsWith (p @ rest) p"
  by (simp add: startsWith_iff)

lemma not_isSpace_hash: "\<not> isSpace (CHR ''#'')"
  by (simp add: isSpace_def)

lemma isQuotaError_iff: "isQuotaError msg \<longleftrightarrow> quotaClass msg"
  by (simp add: isQuotaError_def quotaClass_def str_includes_iff)

lemma logUnansweredQuestion_written:
  assumes "c \<noteq> []" "m \<noteq> []" "r \<noteq> []"
  shows "logUnansweredQuestion \<lparr>logCharacter = c, logMessage = m, logReason = r\<rparr> =
    [LogWrite \<lparr>logCharacter = c, logMessage = m, logReason = r\<rparr>]"
  using assms by (simp add: logUnansweredQuestion_def)

lemma no_call_in_log: "\<not> list_ex isProviderCall (logUnansweredQuestion r)"
  by (simp add: logUnansweredQuestion_def)

lemma no_call_in_respond: "\<not> list_ex isProviderCall (fst (respond slug message pipeline raw))"
  by (simp add: respond_def Let_def no_call_in_log)

lemma no_gemini_in_log: "\<not> list_ex isGeminiCall (logUnansweredQuestion r)"
  by (simp add: logUnansweredQuestion_def)

lemma no_gemini_in_respond: "\<not> list_ex isGeminiCall (fst (respond slug message pipeline raw))"
  by (simp add: respond_def Let_def no_gemini_in_log)

lemma enforceSafety_refusal: "enforceSafety refusal cfg g refusal = refusal"
  by (simp add: enforceSafety_def)

lemma respond_refusal:
  assumes "slug \<noteq> []" "message \<noteq> []"
  shows "respond slug message pipeline (refusalText pipeline) =
    ([LogWrite \<lparr>logCharacter = slug, logMessage = message, logReason = ''model_refusal''\<rparr>,
      LogWrite \<lparr>logCharacter = slug, logMessage = message, logReason = ''safety_refusal''\<rparr>],
     Responded (AnswerJson (refusalText pipeline) (shouldRefuse (prompt pipeline))))"
  using assms
  by (simp add: respond_def Let_def applySafety_def enforceSafety_refusal
      logUnansweredQuestion_written)

section \<open>The loop over the candidate models\<close>













section \<open>The two passes of the renderer\<close>


























section \<open>The safety filter: what it returns\<close>

text \<open>
  Claim C5. For every answer, safety configuration, guardrails value and refusal text,
  \<open>enforceSafety\<close> returns the refusal text when the answer contains, with the case of
  letters ignored, one of the forbidden topics; otherwise it returns the refusal text when
  the answer contains one of the personal-information keywords (address, phone, email,
  last name, full name), a test the code makes on the lower-cased answer as well;
  otherwise it returns the answer unchanged.
\<close>

theorem enforceSafety_cases:
  "enforceSafety answer cfg guardrails refusal =
     (if \<exists>t \<in> set (forbiddenTopics cfg). occurs_ci t answer then refusal
      else if \<exists>k \<in> set personalKeywords. occurs_ci k answer then refusal
      else answer)"
  by (simp add: enforceSafety_def containsForbiddenTopic_iff asksForPersonalInfo_iff)

theorem enforceSafety_cases_witness:
  "enforceSafety ''Tell me about WAR'' \<lparr>forbiddenTopics = [''war''], childSafeRules = [],
       escalationPolicy = []\<rparr> JNull ''Let us talk about something else'' =
     ''Let us talk about something else'' \<and>
   enforceSafety ''What is your Phone number?'' \<lparr>forbiddenTopics = [''war''],
       childSafeRules = [], escalationPolicy = []\<rparr> JNull ''Let us talk about something else'' =
     ''Let us talk about something else'' \<and>
   enforceSafety ''Good morning!'' \<lparr>forbiddenTopics = [''war''], childSafeRules = [],
       escalationPolicy = []\<rparr> JNull ''Let us talk about something else'' = ''Good morning!''"
proof -
  let ?c = "\<lparr>forbiddenTopics = [''war''], childSafeRules = [], escalationPolicy = []\<rparr>"
  let ?r = "''Let us talk about something else''"
  have topic: "occurs_ci ''war'' ''Tell me about WAR''"
    unfolding occurs_ci_def str_includes_iff [symmetric] by code_simp
  have keyword: "occurs_ci ''phone'' ''What is your Phone number?''"
    unfolding occurs_ci_def str_includes_iff [symmetric] by code_simp
  have no_topic2: "\<not> occurs_ci ''war'' ''What is your Phone number?''"
    unfolding occurs_ci_def str_includes_iff [symmetric] by code_simp
  have no_topic3: "\<not> occurs_ci ''war'' ''Good morning!''"
    unfolding occurs_ci_def str_includes_iff [symmetric] by code_simp
  have no_keyword3: "\<not> (\<exists>k \<in> set personalKeywords. occurs_ci k ''Good morning!'')"
    unfolding occurs_ci_def str_includes_iff [symmetric] by code_simp
  have keyword2: "\<exists>k \<in> set personalKeywords. occurs_ci k ''What is your Phone number?''"
    using keyword by (auto simp: personalKeywords_def)
  show ?thesis
    using enforceSafety_cases [of "''Tell me about WAR''" ?c JNull ?r]
      enforceSafety_cases [of "''What is your Phone number?''" ?c JNull ?r]
      enforceSafety_cases [of "''Good morning!''" ?c JNull ?r]
      topic keyword2 no_topic2 no_topic3 no_keyword3
    by simp
qed

text \<open>
  Claim C6, as stated: the string returned by \<open>enforceSafety\<close> never contains a forbidden
  topic. The refusal text is returned as it is, and nothing checks it: with the topic
  \<open>war\<close> and a refusal text that names the topic, the result contains the topic.
\<close>

theorem enforceSafety_forbidden_counterexample:
  "enforceSafety ''war'' \<lparr>forbiddenTopics = [''war''], childSafeRules = [],
       escalationPolicy = []\<rparr> JNull ''I cannot talk about war'' =
     ''I cannot talk about war'' \<and>
   occurs_ci ''war''
     (enforceSafety ''war'' \<lparr>forbiddenTopics = [''war''], childSafeRules = [],
        escalationPolicy = []\<rparr> JNull ''I cannot talk about war'')"
  unfolding occurs_ci_def str_includes_iff [symmetric] by code_simp

text \<open>
  Claim C6, amended. For every safety configuration, guardrails value and input answer,
  and every refusal text that itself contains no forbidden topic (case ignored), the
  string returned by \<open>enforceSafety\<close> contains no forbidden topic of the configuration.
\<close>

theorem enforceSafety_no_forbidden:
  assumes "\<forall>t \<in> set (forbiddenTopics cfg). \<not> occurs_ci t refusal"
  shows "\<forall>t \<in> set (forbiddenTopics cfg).
           \<not> occurs_ci t (enforceSafety answer cfg guardrails refusal)"
proof (cases "containsForbiddenTopic answer (forbiddenTopics cfg)")
  case True
  then have "enforceSafety answer cfg guardrails refusal = refusal"
    by (simp add: enforceSafety_def)
  with assms show ?thesis by simp
next
  case False
  then have clean: "\<forall>t \<in> set (forbiddenTopics cfg). \<not> occurs_ci t answer"
    by (simp add: containsForbiddenTopic_iff)
  show ?thesis
  proof (cases "asksForPersonalInfo answer")
    case True
    with False have "enforceSafety answer cfg guardrails refusal = refusal"
      by (simp add: enforceSafety_def)
    with assms show ?thesis by simp
  next
    case no_info: False
    with False have "enforceSafety answer cfg guardrails refusal = answer"
      by (simp add: enforceSafety_def)
    with clean show ?thesis by simp
  qed
qed

theorem enforceSafety_no_forbidden_witness:
  "\<not> occurs_ci ''war'' ''Let us talk about something else'' \<and>
   \<not> occurs_ci ''war''
       (enforceSafety ''Tell me about WAR'' \<lparr>forbiddenTopics = [''war''],
          childSafeRules = [], escalationPolicy = []\<rparr> JNull
          ''Let us talk about something else'')"
proof -
  let ?c = "\<lparr>forbiddenTopics = [''war''], childSafeRules = [], escalationPolicy = []\<rparr>"
  have clean: "\<not> occurs_ci ''war'' ''Let us talk about something else''"
    unfolding occurs_ci_def str_includes_iff [symmetric] by code_simp
  then have h: "\<forall>t \<in> set (forbiddenTopics ?c).
      \<not> occurs_ci t ''Let us talk about something else''"
    by simp
  show ?thesis
    using clean enforceSafety_no_forbidden [OF h, of "''Tell me about WAR''" JNull] by simp
qed

text \<open>
  Claim C7. \<open>enforceSafety\<close> is idempotent in its answer argument: filtering its own
  output again, with the same configuration, guardrails and refusal text, changes nothing.
\<close>

theorem enforceSafety_idempotent:
  "enforceSafety (enforceSafety x cfg guardrails refusal) cfg guardrails refusal =
   enforceSafety x cfg guardrails refusal"
  by (simp add: enforceSafety_def)

theorem enforceSafety_idempotent_witness:
  "enforceSafety (enforceSafety ''Tell me about WAR'' \<lparr>forbiddenTopics = [''war''],
       childSafeRules = [], escalationPolicy = []\<rparr> JNull ''I cannot talk about war'')
     \<lparr>forbiddenTopics = [''war''], childSafeRules = [], escalationPolicy = []\<rparr> JNull
     ''I cannot talk about war'' = ''I cannot talk about war''"
proof -
  let ?c = "\<lparr>forbiddenTopics = [''war''], childSafeRules = [], escalationPolicy = []\<rparr>"
  have once: "enforceSafety ''Tell me about WAR'' ?c JNull ''I cannot talk about war'' =
      ''I cannot talk about war''"
    by code_simp
  show ?thesis
    using enforceSafety_idempotent [of "''Tell me about WAR''" ?c JNull
        "''I cannot talk about war''"] once
    by simp
qed

section \<open>The context is never blank\<close>

text \<open>
  Claim C2. For every character slug, the context that \<open>loadPrimaryRag\<close> returns starts
  with the Identity section and is not empty after trimming, so the \<open>shouldRefuse\<close> flag
  that \<open>buildRagOnlyPrompt\<close> computes from it is false; and a character without an
  identity file (in particular one with no knowledge file at all) does get a result.
\<close>

theorem loadPrimaryRag_context_never_blank:
  "(\<forall>rag. loadPrimaryRag dir slug = Inr rag \<longrightarrow>
      startsWith (ragContext rag) ''## Identity'' \<and>
      trim (ragContext rag) \<noteq> [] \<and>
      \<not> shouldRefuse (buildRagOnlyPrompt prompts
            \<lparr>in_question = q, in_context = ragContext rag, in_character = c,
             in_refusalText = r, in_guardrails = g, in_conversationHistory = h\<rparr>)) \<and>
   (identity_json (dir slug) = Missing \<longrightarrow> (\<exists>rag. loadPrimaryRag dir slug = Inr rag))"
proof (intro conjI allI impI)
  fix rag
  assume ok: "loadPrimaryRag dir slug = Inr rag"
  from ragContext_starts [OF ok] obtain rest where
    ctx: "ragContext rag = ''## Identity'' @ rest"
    by blast
  show "startsWith (ragContext rag) ''## Identity''"
    unfolding ctx by (rule startsWith_append)
  have "ragContext rag = CHR ''#'' # (''# Identity'' @ rest)"
    using ctx by simp
  then show blank: "trim (ragContext rag) \<noteq> []"
    using trim_nonempty [OF not_isSpace_hash] by simp
  then show "\<not> shouldRefuse (buildRagOnlyPrompt prompts
            \<lparr>in_question = q, in_context = ragContext rag, in_character = c,
             in_refusalText = r, in_guardrails = g, in_conversationHistory = h\<rparr>)"
    by (simp add: shouldRefuse_buildRagOnlyPrompt)
next
  assume "identity_json (dir slug) = Missing"
  then show "\<exists>rag. loadPrimaryRag dir slug = Inr rag"
    by (simp add: loadPrimaryRag_no_identity)
qed

theorem loadPrimaryRag_context_never_blank_witness:
  "identity_json (noKnowledge ''nobody'') = Missing \<and>
   loadPrimaryRag noKnowledge ''nobody'' = Inr noKnowledgeRag \<and>
   startsWith (ragContext noKnowledgeRag) ''## Identity'' \<and>
   trim (ragContext noKnowledgeRag) \<noteq> [] \<and>
   \<not> shouldRefuse (buildRagOnlyPrompt examplePrompts
         \<lparr>in_question = ''hello'', in_context = ragContext noKnowledgeRag,
          in_character = None, in_refusalText = None, in_guardrails = None,
          in_conversationHistory = []\<rparr>)"
proof -
  have missing: "identity_json (noKnowledge ''nobody'') = Missing"
    by (simp add: noKnowledge_def)
  have loaded: "loadPrimaryRag noKnowledge ''nobody'' = Inr noKnowledgeRag"
    by code_simp
  show ?thesis
    using missing loaded
      loadPrimaryRag_context_never_blank [of noKnowledge "''nobody''" examplePrompts
        "''hello''" None None None "[]"]
    by blast
qed

section \<open>The refusal flag and the providers\<close>

text \<open>
  Claim C8. The \<open>shouldRefuse\<close> flag of the prompt bundle is true exactly when the
  context is empty after trimming, whatever the guardrails are; and for a request that
  passes validation and whose pipeline inputs load, the handler calls a provider exactly
  when the flag is false.
\<close>

theorem shouldRefuse_iff_blank_context:
  "(shouldRefuse (buildRagOnlyPrompt prompts input) \<longleftrightarrow> trim (in_context input) = []) \<and>
   shouldRefuse (buildRagOnlyPrompt prompts (input\<lparr>in_guardrails := g\<rparr>)) =
     shouldRefuse (buildRagOnlyPrompt prompts input) \<and>
   (\<forall>message slug history pipeline.
      validateRequest req = Inr (message, slug, history) \<and>
      loadInputs slug message history = Inr pipeline \<longrightarrow>
      (list_ex isProviderCall (fst (handleChatRequest loadInputs callOpenAI callSecondary req))
         \<longleftrightarrow> \<not> shouldRefuse (prompt pipeline)))"
proof (intro conjI allI impI)
  show "shouldRefuse (buildRagOnlyPrompt prompts input) \<longleftrightarrow> trim (in_context input) = []"
    by (rule shouldRefuse_buildRagOnlyPrompt)
  show "shouldRefuse (buildRagOnlyPrompt prompts (input\<lparr>in_guardrails := g\<rparr>)) =
      shouldRefuse (buildRagOnlyPrompt prompts input)"
    by (simp add: shouldRefuse_buildRagOnlyPrompt)
next
  fix message slug history pipeline
  assume "validateRequest req = Inr (message, slug, history) \<and>
      loadInputs slug message history = Inr pipeline"
  then have v: "validateRequest req = Inr (message, slug, history)"
    and l: "loadInputs slug message history = Inr pipeline"
    by simp_all
  show "list_ex isProviderCall (fst (handleChatRequest loadInputs callOpenAI callSecondary req))
         \<longleftrightarrow> \<not> shouldRefuse (prompt pipeline)"
  proof (cases "shouldRefuse (prompt pipeline)")
    case True
    then show ?thesis
      by (simp add: handleChatRequest_def v l no_call_in_log no_call_in_respond)
  next
    case False
    then show ?thesis
      by (simp add: handleChatRequest_def v l Let_def split: sum.splits)
  qed
qed

theorem shouldRefuse_iff_blank_context_witness:
  "validateRequest helloRequest = Inr (''hello'', ''nobody'', []) \<and>
   contextInputs [] ''nobody'' ''hello'' [] = Inr (pipelineOf [] ''nobody'' ''hello'' []) \<and>
   shouldRefuse (prompt (pipelineOf [] ''nobody'' ''hello'' [])) \<and>
   \<not> list_ex isProviderCall
       (fst (handleChatRequest (contextInputs []) (answers ''Hello!'') (answers ''Hi!'')
          helloRequest)) \<and>
   \<not> shouldRefuse (prompt (pipelineOf ''He is brave.'' ''nobody'' ''hello'' [])) \<and>
   list_ex isProviderCall
     (fst (handleChatRequest (contextInputs ''He is brave.'') (answers ''Hello!'')
        (answers ''Hi!'') helloRequest)) \<and>
   trim ''  '' = [] \<and>
   shouldRefuse (buildRagOnlyPrompt examplePrompts
     \<lparr>in_question = ''hello'', in_context = ''  '', in_character = None,
      in_refusalText = None, in_guardrails = Some (JObj [(''tone'', JStr ''kind'')]),
      in_conversationHistory = []\<rparr>)"
proof -
  let ?input = "\<lparr>in_question = ''hello'', in_context = ''  '', in_character = None,
      in_refusalText = None, in_guardrails = Some (JObj [(''tone'', JStr ''kind'')]),
      in_conversationHistory = []\<rparr>"
  have valid: "validateRequest helloRequest = Inr (''hello'', ''nobody'', [])"
    by code_simp
  have blank: "shouldRefuse (prompt (pipelineOf [] ''nobody'' ''hello'' []))"
    by (simp add: pipelineOf_def shouldRefuse_buildRagOnlyPrompt trim_def)
  have brave: "\<not> shouldRefuse (prompt (pipelineOf ''He is brave.'' ''nobody'' ''hello'' []))"
    by (simp add: pipelineOf_def shouldRefuse_buildRagOnlyPrompt trim_def isSpace_def)
  have spaces: "trim ''  '' = []"
    by code_simp
  show ?thesis
    using valid blank brave spaces
      shouldRefuse_iff_blank_context [where prompts = examplePrompts and input = ?input
        and g = None and req = helloRequest and loadInputs = "contextInputs []"
        and callOpenAI = "answers ''Hello!''" and callSecondary = "answers ''Hi!''"]
      shouldRefuse_iff_blank_context [where prompts = examplePrompts and input = ?input
        and g = None and req = helloRequest and loadInputs = "contextInputs ''He is brave.''"
        and callOpenAI = "answers ''Hello!''" and callSecondary = "answers ''Hi!''"]
    by (simp add: contextInputs_def)
qed

section \<open>The fallback to the secondary provider\<close>

text \<open>
  Claim C4. The handler calls the secondary provider only when the primary provider failed
  with a message that holds one of the quota-class markers (\<open>insufficient_quota\<close>,
  \<open>OpenAI error 429\<close>, \<open>Missing OPENAI_API_KEY\<close>), and it does call it then; after any
  other primary failure it logs the failure and answers 500 with the message of that
  failure, and the secondary provider is not called.
\<close>

theorem secondary_only_on_quota_class:
  "(list_ex isGeminiCall (fst (handleChatRequest loadInputs callOpenAI callSecondary req)) \<longrightarrow>
      (\<exists>message slug history pipeline error.
         validateRequest req = Inr (message, slug, history) \<and>
         loadInputs slug message history = Inr pipeline \<and>
         \<not> shouldRefuse (prompt pipeline) \<and>
         callOpenAI (system (prompt pipeline)) (user (prompt pipeline))
           (conversationHistory pipeline) = Inl error \<and>
         quotaClass (messageOr error ''OpenAI failed''))) \<and>
   (\<forall>message slug history pipeline error.
      validateRequest req = Inr (message, slug, history) \<and>
      loadInputs slug message history = Inr pipeline \<and>
      \<not> shouldRefuse (prompt pipeline) \<and>
      callOpenAI (system (prompt pipeline)) (user (prompt pipeline))
        (conversationHistory pipeline) = Inl error \<and>
      \<not> quotaClass (messageOr error ''OpenAI failed'') \<longrightarrow>
      handleChatRequest loadInputs callOpenAI callSecondary req =
        ([OpenAICall (system (prompt pipeline)) (user (prompt pipeline))
            (conversationHistory pipeline),
          LogWrite \<lparr>logCharacter = slug, logMessage = message,
            logReason = ''openai_error:'' @ messageOr error ''OpenAI failed''\<rparr>],
         Responded (ErrorJson 500 (''OpenAI failed: '' @ messageOr error ''OpenAI failed'')))) \<and>
   (\<forall>message slug history pipeline error.
      validateRequest req = Inr (message, slug, history) \<and>
      loadInputs slug message history = Inr pipeline \<and>
      \<not> shouldRefuse (prompt pipeline) \<and>
      callOpenAI (system (prompt pipeline)) (user (prompt pipeline))
        (conversationHistory pipeline) = Inl error \<and>
      quotaClass (messageOr error ''OpenAI failed'') \<longrightarrow>
      list_ex isGeminiCall (fst (handleChatRequest loadInputs callOpenAI callSecondary req)))"
proof (intro conjI allI impI)
  assume called: "list_ex isGeminiCall
      (fst (handleChatRequest loadInputs callOpenAI callSecondary req))"
  then obtain message slug history where
    v: "validateRequest req = Inr (message, slug, history)"
    by (cases "validateRequest req") (auto simp: handleChatRequest_def)
  from called v obtain pipeline where l: "loadInputs slug message history = Inr pipeline"
    by (cases "loadInputs slug message history") (auto simp: handleChatRequest_def)
  from called v l have nr: "\<not> shouldRefuse (prompt pipeline)"
    by (auto simp: handleChatRequest_def no_gemini_in_log no_gemini_in_respond)
  let ?call = "callOpenAI (system (prompt pipeline)) (user (prompt pipeline))
      (conversationHistory pipeline)"
  from called v l nr obtain error where e: "?call = Inl error"
    by (cases ?call) (auto simp: handleChatRequest_def Let_def no_gemini_in_respond)
  from called v l nr e have "quotaClass (messageOr error ''OpenAI failed'')"
    by (auto simp: handleChatRequest_def Let_def no_gemini_in_log isQuotaError_iff
        split: if_splits)
  with v l nr e show "\<exists>message slug history pipeline error.
         validateRequest req = Inr (message, slug, history) \<and>
         loadInputs slug message history = Inr pipeline \<and>
         \<not> shouldRefuse (prompt pipeline) \<and>
         callOpenAI (system (prompt pipeline)) (user (prompt pipeline))
           (conversationHistory pipeline) = Inl error \<and>
         quotaClass (messageOr error ''OpenAI failed'')"
    by blast
next
  fix message slug history pipeline error
  assume h: "validateRequest req = Inr (message, slug, history) \<and>
      loadInputs slug message history = Inr pipeline \<and>
      \<not> shouldRefuse (prompt pipeline) \<and>
      callOpenAI (system (prompt pipeline)) (user (prompt pipeline))
        (conversationHistory pipeline) = Inl error \<and>
      \<not> quotaClass (messageOr error ''OpenAI failed'')"
  then have ne: "message \<noteq> []" "slug \<noteq> []"
    using validateRequest_Inr by blast+
  from h ne show "handleChatRequest loadInputs callOpenAI callSecondary req =
        ([OpenAICall (system (prompt pipeline)) (user (prompt pipeline))
            (conversationHistory pipeline),
          LogWrite \<lparr>logCharacter = slug, logMessage = message,
            logReason = ''openai_error:'' @ messageOr error ''OpenAI failed''\<rparr>],
         Responded (ErrorJson 500 (''OpenAI failed: '' @ messageOr error ''OpenAI failed'')))"
    by (simp add: handleChatRequest_def Let_def isQuotaError_iff logUnansweredQuestion_written)
next
  fix message slug history pipeline error
  assume "validateRequest req = Inr (message, slug, history) \<and>
      loadInputs slug message history = Inr pipeline \<and>
      \<not> shouldRefuse (prompt pipeline) \<and>
      callOpenAI (system (prompt pipeline)) (user (prompt pipeline))
        (conversationHistory pipeline) = Inl error \<and>
      quotaClass (messageOr error ''OpenAI failed'')"
  then show "list_ex isGeminiCall
      (fst (handleChatRequest loadInputs callOpenAI callSecondary req))"
    by (simp add: handleChatRequest_def Let_def isQuotaError_iff split: sum.splits)
qed

theorem secondary_only_on_quota_class_witness:
  "validateRequest helloRequest = Inr (''hello'', ''nobody'', []) \<and>
   \<not> quotaClass ''OpenAI error 500: boom'' \<and>
   handleChatRequest (contextInputs ''He is brave.'') (failsWith ''OpenAI error 500: boom'')
       (answers ''Good morning!'') helloRequest =
     ([OpenAICall (system (prompt (pipelineOf ''He is brave.'' ''nobody'' ''hello'' [])))
         (user (prompt (pipelineOf ''He is brave.'' ''nobody'' ''hello'' []))) [],
       LogWrite \<lparr>logCharacter = ''nobody'', logMessage = ''hello'',
         logReason = ''openai_error:OpenAI error 500: boom''\<rparr>],
      Responded (ErrorJson 500 ''OpenAI failed: OpenAI error 500: boom'')) \<and>
   quotaClass ''Missing OPENAI_API_KEY'' \<and>
   list_ex isGeminiCall
     (fst (handleChatRequest (contextInputs ''He is brave.'') (failsWith ''Missing OPENAI_API_KEY'')
        (answers ''Good morning!'') helloRequest))"
proof -
  let ?p = "pipelineOf ''He is brave.'' ''nobody'' ''hello'' []"
  have valid: "validateRequest helloRequest = Inr (''hello'', ''nobody'', [])"
    by code_simp
  have loaded: "contextInputs ''He is brave.'' ''nobody'' ''hello'' [] = Inr ?p"
    by (simp add: contextInputs_def)
  have brave: "\<not> shouldRefuse (prompt ?p)"
    by (simp add: pipelineOf_def shouldRefuse_buildRagOnlyPrompt trim_def isSpace_def)
  have failed: "failsWith ''OpenAI error 500: boom'' (system (prompt ?p)) (user (prompt ?p))
      (conversationHistory ?p) = Inl \<lparr>errMessage = ''OpenAI error 500: boom'', errStatusCode = None\<rparr>"
    by (simp add: failsWith_def)
  have msg: "messageOr \<lparr>errMessage = ''OpenAI error 500: boom'', errStatusCode = None\<rparr>
      ''OpenAI failed'' = ''OpenAI error 500: boom''"
    by (simp add: messageOr_def)
  have fatal: "\<not> quotaClass ''OpenAI error 500: boom''"
    unfolding isQuotaError_iff [symmetric] by code_simp
  have history: "conversationHistory ?p = []"
    by (simp add: pipelineOf_def)
  from secondary_only_on_quota_class [of "contextInputs ''He is brave.''"
      "failsWith ''OpenAI error 500: boom''" "answers ''Good morning!''" helloRequest]
  have "handleChatRequest (contextInputs ''He is brave.'') (failsWith ''OpenAI error 500: boom'')
       (answers ''Good morning!'') helloRequest =
     ([OpenAICall (system (prompt ?p)) (user (prompt ?p)) (conversationHistory ?p),
       LogWrite \<lparr>logCharacter = ''nobody'', logMessage = ''hello'',
         logReason = ''openai_error:'' @ ''OpenAI error 500: boom''\<rparr>],
      Responded (ErrorJson 500 (''OpenAI failed: '' @ ''OpenAI error 500: boom'')))"
    using valid loaded brave failed fatal msg by metis
  note fatal_case = this
  have failed2: "failsWith ''Missing OPENAI_API_KEY'' (system (prompt ?p)) (user (prompt ?p))
      (conversationHistory ?p) = Inl \<lparr>errMessage = ''Missing OPENAI_API_KEY'', errStatusCode = None\<rparr>"
    by (simp add: failsWith_def)
  have msg2: "messageOr \<lparr>errMessage = ''Missing OPENAI_API_KEY'', errStatusCode = None\<rparr>
      ''OpenAI failed'' = ''Missing OPENAI_API_KEY''"
    by (simp add: messageOr_def)
  have quota: "quotaClass ''Missing OPENAI_API_KEY''"
    unfolding isQuotaError_iff [symmetric] by code_simp
  from secondary_only_on_quota_class [of "contextInputs ''He is brave.''"
      "failsWith ''Missing OPENAI_API_KEY''" "answers ''Good morning!''" helloRequest]
  have "list_ex isGeminiCall
     (fst (handleChatRequest (contextInputs ''He is brave.'') (failsWith ''Missing OPENAI_API_KEY'')
        (answers ''Good morning!'') helloRequest))"
    using valid loaded brave failed2 quota msg2 by metis
  with fatal_case show ?thesis
    using valid fatal history quota by simp
qed

section \<open>The log entries of the refusal path\<close>

text \<open>
  Claim C10. When the \<open>shouldRefuse\<close> flag is set, the handler writes three log entries
  for the request, with the reasons \<open>empty_context\<close>, \<open>model_refusal\<close> and
  \<open>safety_refusal\<close> in this order, calls no provider, and answers with the refusal text:
  the raw answer is the refusal text, and so is the answer after the safety filter.
\<close>

theorem empty_context_writes_three_log_entries:
  assumes "validateRequest req = Inr (message, slug, history)"
    and "loadInputs slug message history = Inr pipeline"
    and "shouldRefuse (prompt pipeline)"
  shows "handleChatRequest loadInputs callOpenAI callSecondary req =
    ([LogWrite \<lparr>logCharacter = slug, logMessage = message, logReason = ''empty_context''\<rparr>,
      LogWrite \<lparr>logCharacter = slug, logMessage = message, logReason = ''model_refusal''\<rparr>,
      LogWrite \<lparr>logCharacter = slug, logMessage = message, logReason = ''safety_refusal''\<rparr>],
     Responded (AnswerJson (refusalText pipeline) True))"
proof -
  from validateRequest_Inr [OF assms(1)] have ne: "message \<noteq> []" "slug \<noteq> []"
    by simp_all
  show ?thesis
    using assms ne
    by (simp add: handleChatRequest_def respond_refusal logUnansweredQuestion_written)
qed

theorem empty_context_writes_three_log_entries_witness:
  "handleChatRequest (contextInputs []) (answers ''Hello!'') (answers ''Hi!'') helloRequest =
     ([LogWrite \<lparr>logCharacter = ''nobody'', logMessage = ''hello'',
         logReason = ''empty_context''\<rparr>,
       LogWrite \<lparr>logCharacter = ''nobody'', logMessage = ''hello'',
         logReason = ''model_refusal''\<rparr>,
       LogWrite \<lparr>logCharacter = ''nobody'', logMessage = ''hello'',
         logReason = ''safety_refusal''\<rparr>],
      Responded (AnswerJson ''I am not sure about that.'' True))"
proof -
  let ?p = "pipelineOf [] ''nobody'' ''hello'' []"
  have valid: "validateRequest helloRequest = Inr (''hello'', ''nobody'', [])"
    by code_simp
  have loaded: "contextInputs [] ''nobody'' ''hello'' [] = Inr ?p"
    by (simp add: contextInputs_def)
  have blank: "shouldRefuse (prompt ?p)"
    by (simp add: pipelineOf_def shouldRefuse_buildRagOnlyPrompt trim_def)
  have refusal: "refusalText ?p = ''I am not sure about that.''"
    by (simp add: pipelineOf_def)
  show ?thesis
    using empty_context_writes_three_log_entries [where loadInputs = "contextInputs []"
        and callOpenAI = "answers ''Hello!''" and callSecondary = "answers ''Hi!''",
        OF valid loaded blank] refusal
    by simp
qed

section \<open>A character without knowledge files\<close>

text \<open>
  Claim C1 says that a request for a character without knowledge files is refused and
  calls no provider. The code does otherwise: the context of such a character holds the
  Identity and Style sections of two empty objects, the flag is false, the primary
  provider is called and its answer is returned.
\<close>

theorem no_knowledge_files_calls_provider:
  "list_ex isProviderCall
     (fst (chatServer noKnowledgeWorld (answers ''Hello!'')
        \<lparr>GEMINI_API_KEY = None, GEMINI_MODEL = None,
         requestGemini = (\<lambda>n model apiKey contents. Inr []),
         listGeminiModels = (\<lambda>apiKey. Inr [])\<rparr> helloRequest)) \<and>
   snd (chatServer noKnowledgeWorld (answers ''Hello!'')
        \<lparr>GEMINI_API_KEY = None, GEMINI_MODEL = None,
         requestGemini = (\<lambda>n model apiKey contents. Inr []),
         listGeminiModels = (\<lambda>apiKey. Inr [])\<rparr> helloRequest) =
     Responded (AnswerJson ''Hello!'' False)"
  by code_simp

section \<open>The candidate models of the secondary provider\<close>




section \<open>Template rendering\<close>




end
